theory Spec2Isabelle
  imports Complex_Main "HOL-Library.Sublist" "HOL-Library.Multiset"
begin

section \<open>Python strings\<close>

text \<open>
  A Python \<open>str\<close> is modelled as a \<open>string\<close>: one \<open>char\<close> per code point, for the code
  points below 256. The character predicates below are Python's, restricted to that range.
\<close>

definition backslash :: char where
  "backslash = CHR 0x5C"

definition newline :: char where
  "newline = CHR 0x0A"

definition quote :: char where
  "quote = CHR 0x27"

text \<open>\<open>sep.join(xs)\<close>\<close>

fun py_join :: "string \<Rightarrow> string list \<Rightarrow> string" where
  "py_join sep [] = []"
| "py_join sep [x] = x"
| "py_join sep (x # y # ys) = x @ sep @ py_join sep (y # ys)"

text \<open>\<open>s.replace(c, new)\<close> for a one-character \<open>c\<close>\<close>

definition str_replace :: "char \<Rightarrow> string \<Rightarrow> string \<Rightarrow> string" where
  "str_replace c new s = concat (map (\<lambda>x. if x = c then new else [x]) s)"

text \<open>\<open>c.isdigit()\<close>: the ASCII digits, and the superscript digits of Latin-1.\<close>

definition isdigit :: "char \<Rightarrow> bool" where
  "isdigit c \<longleftrightarrow> c \<in> set ''0123456789'' \<or> (of_char c :: nat) \<in> {178, 179, 185}"

text \<open>\<open>s.lower()\<close>\<close>

definition lower_char :: "char \<Rightarrow> char" where
  "lower_char c =
     (let n = (of_char c :: nat)
      in if (65 \<le> n \<and> n \<le> 90) \<or> (192 \<le> n \<and> n \<le> 222 \<and> n \<noteq> 215)
         then char_of (n + 32) else c)"

definition str_lower :: "string \<Rightarrow> string" where
  "str_lower s = map lower_char s"

text \<open>The class \<open>[a-zA-Z0-9_]\<close> of the regular expression in \<open>_sanitize_identifier\<close>.\<close>

definition is_ident_char :: "char \<Rightarrow> bool" where
  "is_ident_char c \<longleftrightarrow>
     c \<in> set ''abcdefghijklmnopqrstuvwxyzABCDEFGHIJKLMNOPQRSTUVWXYZ0123456789_''"

section \<open>The data model (models/schema.py)\<close>

record ColumnAnalysis =
  name :: string
  data_type :: string
  mysql_type :: string
  sample_values :: "string list"
  null_count :: int
  unique_count :: int
  total_count :: int
  null_percentage :: rat
  description :: string
  cleaning_recommendations :: "string list"

section \<open>The DDL generator (services/ddl_generator.py)\<close>

definition reserved_words :: "string list" where
  "reserved_words =
     [''select'', ''insert'', ''update'', ''delete'', ''from'', ''where'', ''join'',
      ''inner'', ''outer'', ''left'', ''right'', ''on'', ''order'', ''by'', ''group'',
      ''having'', ''union'', ''create'', ''table'', ''index'', ''key'', ''primary'',
      ''foreign'', ''references'', ''constraint'', ''alter'', ''drop'', ''database'',
      ''schema'', ''view'', ''procedure'', ''function'', ''trigger'', ''user'',
      ''grant'', ''revoke'', ''commit'', ''rollback'', ''transaction'']"

text \<open>
  \<open>_sanitize_identifier\<close>. The second test for an empty result is the source's; it cannot
  succeed, since the substitution keeps the length of a non-empty name.
\<close>

definition sanitize_identifier :: "string \<Rightarrow> string" where
  "sanitize_identifier nm =
     (if nm = [] then ''unnamed_column''
      else
        let sanitized = map (\<lambda>c. if is_ident_char c then c else CHR ''_'') nm;
            sanitized = (if sanitized \<noteq> [] \<and> isdigit (hd sanitized)
                         then ''col_'' @ sanitized else sanitized)
        in if sanitized = [] then ''unnamed_column''
           else if length sanitized > 64 then take 61 sanitized @ ''_tr''
           else sanitized)"

text \<open>
  \<open>_generate_column_definition\<close>. \<open>filter(None, parts)\<close> drops the empty strings among
  the four parts before they are joined by one space.
\<close>

definition generate_column_definition :: "ColumnAnalysis \<Rightarrow> string" where
  "generate_column_definition column =
     (let clean_name = sanitize_identifier (name column);
          clean_name = (if str_lower clean_name \<in> set reserved_words
                        then clean_name @ ''_col'' else clean_name);
          nullable = (if null_count column > 0 then ''NULL'' else ''NOT NULL'');
          comment = (if description column \<noteq> []
                     then ''COMMENT '' @ [quote]
                          @ take 100 (str_replace quote [backslash, quote] (description column))
                          @ [quote]
                     else []);
          parts = [''    `'' @ clean_name @ ''`'', mysql_type column, nullable, comment]
      in py_join '' '' (filter (\<lambda>p. p \<noteq> []) parts))"

definition generate_ddl :: "string \<Rightarrow> ColumnAnalysis list \<Rightarrow> string" where
  "generate_ddl table_name columns =
     (let clean_table_name = sanitize_identifier table_name;
          column_definitions = map generate_column_definition columns;
          ddl_parts =
            [''CREATE TABLE `'' @ clean_table_name @ ''` ('',
             py_join ('','' @ [newline]) column_definitions,
             '') ENGINE=InnoDB DEFAULT CHARSET=utf8mb4 COLLATE=utf8mb4_unicode_ci;'']
      in py_join [newline] ddl_parts)"

section \<open>Library functions the engine calls\<close>

text \<open>
  The regular-expression engine, pandas' numeric coercion and Python's float formatting are
  not code of this repository; they are parameters of the model.
  \<^item> \<open>str_match p\<close> is \<open>Series.str.match(p, case=False, na=False)\<close> on one cell, and
    \<open>None\<close> when the pattern \<open>p\<close> raises \<open>re.error\<close>;
  \<^item> \<open>to_numeric\<close> is \<open>pd.to_numeric(errors='coerce')\<close> on one cell, \<open>None\<close> for NaN;
    numbers are exact rationals;
  \<^item> \<open>float_str\<close> is \<open>astype(str)\<close> on a number;
  \<^item> \<open>format_1f x\<close> is the f-string \<open>{x:.1f}\<close>;
  \<^item> \<open>round_2 x\<close> is \<open>round(float(x), 2)\<close>.
\<close>

record pylib =
  str_match :: "string \<Rightarrow> (string \<Rightarrow> bool) option"
  to_numeric :: "string \<Rightarrow> rat option"
  float_str :: "rat \<Rightarrow> string"
  format_1f :: "rat \<Rightarrow> string"
  round_2 :: "rat \<Rightarrow> rat"

section \<open>Series operations\<close>

text \<open>A column is a list of cells; \<open>None\<close> is a null cell.\<close>

type_synonym series = "string option list"

fun dropna :: "'a option list \<Rightarrow> 'a list" where
  "dropna [] = []"
| "dropna (None # xs) = dropna xs"
| "dropna (Some x # xs) = x # dropna xs"

text \<open>\<open>c.isspace()\<close> and \<open>s.strip()\<close>\<close>

definition isspace :: "char \<Rightarrow> bool" where
  "isspace c \<longleftrightarrow> (of_char c :: nat) \<in> {9, 10, 11, 12, 13, 28, 29, 30, 31, 32, 133, 160}"

definition str_strip :: "string \<Rightarrow> string" where
  "str_strip s = rev (dropWhile isspace (rev (dropWhile isspace s)))"

text \<open>\<open>s.split(c)\<close>\<close>

fun split_on :: "char \<Rightarrow> string \<Rightarrow> string list" where
  "split_on c [] = [[]]"
| "split_on c (x # xs) =
     (if x = c then [] # split_on c xs
      else (case split_on c xs of [] \<Rightarrow> [[x]] | w # ws \<Rightarrow> (x # w) # ws))"

text \<open>\<open>str(n)\<close> for a non-negative integer\<close>

definition digit_char :: "nat \<Rightarrow> char" where
  "digit_char d = ''0123456789'' ! d"

function str_of_nat :: "nat \<Rightarrow> string" where
  "str_of_nat n = (if n < 10 then [digit_char n] else str_of_nat (n div 10) @ [digit_char (n mod 10)])"
  by pat_completeness auto
termination
  by (relation "measure id") auto

declare str_of_nat.simps [simp del]

text \<open>
  \<open>Series.min()\<close> and \<open>Series.max()\<close>; \<open>None\<close> is the NaN that pandas returns for an
  empty series.
\<close>

definition series_min :: "'a::linorder list \<Rightarrow> 'a option" where
  "series_min xs = (case xs of [] \<Rightarrow> None | x # r \<Rightarrow> Some (fold min r x))"

definition series_max :: "'a::linorder list \<Rightarrow> 'a option" where
  "series_max xs = (case xs of [] \<Rightarrow> None | x # r \<Rightarrow> Some (fold max r x))"

text \<open>
  \<open>Series.quantile(q)\<close> with pandas' default linear interpolation, on a non-empty series:
  the value at the fractional index \<open>(n - 1) * q\<close> of the sorted values.
\<close>

definition quantile :: "rat list \<Rightarrow> rat \<Rightarrow> rat" where
  "quantile xs q =
     (let s = sort xs;
          n = length s;
          h = of_nat (n - 1) * q;
          lo = nat \<lfloor>h\<rfloor>;
          hi = min (lo + 1) (n - 1);
          g = h - of_nat lo
      in s ! lo + (s ! hi - s ! lo) * g)"

section \<open>Constants (constants.py)\<close>

text \<open>\<open>TYPE_PATTERNS\<close>, in declaration order, with the text of each regular expression.\<close>

definition TYPE_PATTERNS :: "(string \<times> string) list" where
  "TYPE_PATTERNS =
     [(''email'', ''^[a-zA-Z0-9._%+-]+@[a-zA-Z0-9.-]+'' @ [backslash] @ ''.[a-zA-Z]{2,}$''),
      (''phone'', ''^['' @ [backslash] @ ''+]?['' @ [backslash] @ ''d'' @ [backslash] @ ''s''
                  @ [backslash] @ ''-'' @ [backslash] @ ''('' @ [backslash] @ '')''
                  @ [backslash] @ ''.]{7,20}$''),
      (''url'', ''^https?://[^'' @ [backslash] @ ''s]+$''),
      (''date'', ''^'' @ [backslash] @ ''d{4}-'' @ [backslash] @ ''d{2}-'' @ [backslash] @ ''d{2}|''
                 @ [backslash] @ ''d{2}[/'' @ [backslash] @ ''-]'' @ [backslash] @ ''d{2}[/''
                 @ [backslash] @ ''-]'' @ [backslash] @ ''d{4}|'' @ [backslash] @ ''d{1,2}[/''
                 @ [backslash] @ ''-]'' @ [backslash] @ ''d{1,2}[/'' @ [backslash] @ ''-]''
                 @ [backslash] @ ''d{2,4}$''),
      (''time'', ''^'' @ [backslash] @ ''d{1,2}:'' @ [backslash] @ ''d{2}(:'' @ [backslash]
                 @ ''d{2})?('' @ [backslash] @ ''s?(AM|PM|am|pm))?$''),
      (''boolean'', ''^(true|false|yes|no|y|n|1|0|t|f)$''),
      (''uuid'', ''^[0-9a-f]{8}-[0-9a-f]{4}-[0-9a-f]{4}-[0-9a-f]{4}-[0-9a-f]{12}$'')]"

section \<open>The schema inference engine (services/schema_inference.py)\<close>

text \<open>
  \<open>_detect_patterns\<close>: the loop over the patterns, with the column's strings. The source
  compares the match count with the float \<open>total_count * 0.8\<close>; the model compares with
  the exact product. A pattern that raises \<open>re.error\<close> is skipped.
\<close>

fun detect_patterns_loop ::
  "pylib \<Rightarrow> string list \<Rightarrow> (string \<times> string) list \<Rightarrow> string option" where
  "detect_patterns_loop lib str_series [] = None"
| "detect_patterns_loop lib str_series ((pattern_name, pattern) # rest) =
     (case str_match lib pattern of
        None \<Rightarrow> detect_patterns_loop lib str_series rest
      | Some m \<Rightarrow>
          if (of_nat (length (filter m str_series)) :: rat)
               > of_nat (length str_series) * (8 / 10)
          then Some pattern_name
          else detect_patterns_loop lib str_series rest)"

definition detect_patterns :: "pylib \<Rightarrow> string list \<Rightarrow> string option" where
  "detect_patterns lib str_series = detect_patterns_loop lib str_series TYPE_PATTERNS"

text \<open>
  \<open>_classify_integer_type\<close>. On an empty series pandas' min and max are NaN, every
  comparison is false and the last branch is taken.
\<close>

definition classify_integer_type :: "rat list \<Rightarrow> string \<times> string" where
  "classify_integer_type series =
     (case (series_min series, series_max series) of
        (Some min_val, Some max_val) \<Rightarrow>
          if min_val \<ge> 0 then
            if max_val \<le> 255 then (''tinyint_unsigned'', ''TINYINT UNSIGNED'')
            else if max_val \<le> 65535 then (''smallint_unsigned'', ''SMALLINT UNSIGNED'')
            else if max_val \<le> 4294967295 then (''int_unsigned'', ''INT UNSIGNED'')
            else (''bigint_unsigned'', ''BIGINT UNSIGNED'')
          else
            if min_val \<ge> - 128 \<and> max_val \<le> 127 then (''tinyint'', ''TINYINT'')
            else if min_val \<ge> - 32768 \<and> max_val \<le> 32767 then (''smallint'', ''SMALLINT'')
            else if min_val \<ge> - 2147483648 \<and> max_val \<le> 2147483647 then (''int'', ''INT'')
            else (''bigint'', ''BIGINT'')
      | _ \<Rightarrow> (''bigint'', ''BIGINT''))"

text \<open>
  \<open>_classify_decimal_type\<close>: the number of characters after the first dot of each value's
  text, NaN (\<open>None\<close>) where the text has no dot; the maximum skips the NaNs.
\<close>

definition classify_decimal_type :: "pylib \<Rightarrow> rat list \<Rightarrow> string \<times> string" where
  "classify_decimal_type lib series =
     (let str_values = map (float_str lib) series;
          decimal_places =
            map (\<lambda>s. case split_on (CHR ''.'') s of
                         _ # b # _ \<Rightarrow> Some (length b)
                       | _ \<Rightarrow> None) str_values;
          max_decimal_places = series_max (dropna decimal_places)
      in case max_decimal_places of
           None \<Rightarrow> (''decimal'', ''DECIMAL(15,4)'')
         | Some m \<Rightarrow>
             if m \<le> 4 then (''decimal'', ''DECIMAL(15,4)'')
             else if m \<le> 6 then (''decimal'', ''DECIMAL(20,6)'')
             else (''float'', ''FLOAT''))"

text \<open>
  \<open>_detect_numeric_types\<close>. The source compares the count with the float
  \<open>len(series) * 0.9\<close>; the model compares with the exact product. \<open>v % 1 == 0\<close> is
  \<open>frac v = 0\<close>. Nothing in the \<open>try\<close> block raises on a series of strings, so the
  \<open>except\<close> branch has no counterpart.
\<close>

definition detect_numeric_types :: "pylib \<Rightarrow> string list \<Rightarrow> (string \<times> string) option" where
  "detect_numeric_types lib series =
     (let numeric_series = map (to_numeric lib) series;
          valid_numbers = dropna numeric_series
      in if (of_nat (length valid_numbers) :: rat) < of_nat (length series) * (9 / 10)
         then None
         else if list_all (\<lambda>v. frac v = 0) valid_numbers
              then Some (classify_integer_type valid_numbers)
              else Some (classify_decimal_type lib valid_numbers))"

text \<open>
  \<open>_analyze_string_type\<close>. On an empty series the maximum is NaN and the last branch is
  taken.
\<close>

definition analyze_string_type :: "string list \<Rightarrow> string \<times> string" where
  "analyze_string_type str_series =
     (case series_max (map length str_series) of
        None \<Rightarrow> (''long_string'', ''LONGTEXT'')
      | Some max_length \<Rightarrow>
          if max_length \<le> 10 then
            (''short_string'', ''VARCHAR('' @ str_of_nat (min 50 (max_length + 10)) @ '')'')
          else if max_length \<le> 100 then
            (''string'', ''VARCHAR('' @ str_of_nat (min 255 (max_length + 20)) @ '')'')
          else if max_length \<le> 255 then (''string'', ''VARCHAR(255)'')
          else if max_length \<le> 1000 then (''medium_string'', ''TEXT'')
          else (''long_string'', ''LONGTEXT''))"

definition get_mysql_type_for_pattern :: "string \<Rightarrow> string" where
  "get_mysql_type_for_pattern pattern_name =
     (case map_of
             [(''email'', ''VARCHAR(100)''),
              (''phone'', ''VARCHAR(25)''),
              (''url'', ''VARCHAR(500)''),
              (''date'', ''DATE''),
              (''time'', ''TIME''),
              (''boolean'', ''BOOLEAN''),
              (''uuid'', ''CHAR(36)'')] pattern_name of
        Some t \<Rightarrow> t
      | None \<Rightarrow> ''TEXT'')"

text \<open>
  \<open>_infer_types\<close>. \<open>if pattern_type:\<close> holds for a name that is neither \<open>None\<close> nor the
  empty string.
\<close>

definition infer_types :: "pylib \<Rightarrow> series \<Rightarrow> string \<times> string" where
  "infer_types lib series =
     (let non_null_series = dropna series
      in if length non_null_series = 0 then (''unknown'', ''TEXT'')
         else
           let str_series = map str_strip non_null_series
           in case detect_patterns lib str_series of
                Some pattern_type \<Rightarrow>
                  if pattern_type \<noteq> []
                  then (pattern_type, get_mysql_type_for_pattern pattern_type)
                  else (case detect_numeric_types lib non_null_series of
                          Some numeric_type \<Rightarrow> numeric_type
                        | None \<Rightarrow> analyze_string_type str_series)
              | None \<Rightarrow>
                  (case detect_numeric_types lib non_null_series of
                     Some numeric_type \<Rightarrow> numeric_type
                   | None \<Rightarrow> analyze_string_type str_series))"

text \<open>\<open>_analyze_string_quality\<close>, on the non-null cells\<close>

definition analyze_string_quality :: "pylib \<Rightarrow> string list \<Rightarrow> string list" where
  "analyze_string_quality lib series =
     (let str_series = series;
          trimmed = map str_strip str_series;
          whitespace =
            (if str_series \<noteq> trimmed
             then [''Leading/trailing whitespace detected - consider trimming''] else []);
          casing =
            (if length (remdups str_series) \<noteq> length (remdups (map str_lower str_series))
             then [''Inconsistent casing detected - standardize case if needed''] else []);
          long_text =
            (case series_max (map length str_series) of
               Some max_len \<Rightarrow>
                 if max_len > 1000
                 then [''Very long text values detected - consider TEXT type or truncation'']
                 else []
             | None \<Rightarrow> []);
          empty_count = length (filter (\<lambda>s. s = []) str_series);
          empties =
            (if empty_count > 0
             then [''Empty strings detected (''
                   @ format_1f lib (of_nat empty_count / of_nat (length str_series) * 100)
                   @ ''%) - standardize with nulls'']
             else [])
      in whitespace @ casing @ long_text @ empties)"

text \<open>
  \<open>_analyze_numeric_quality\<close>, on the non-null cells. Nothing in the \<open>try\<close> block raises
  on a series of strings, so the \<open>except\<close> branch has no counterpart.
\<close>

definition analyze_numeric_quality :: "pylib \<Rightarrow> string list \<Rightarrow> string list" where
  "analyze_numeric_quality lib series =
     (let numeric_series = dropna (map (to_numeric lib) series)
      in if length numeric_series = 0 then []
         else
           let Q1 = quantile numeric_series (1 / 4);
               Q3 = quantile numeric_series (3 / 4);
               IQR = Q3 - Q1;
               outlier_finding =
                 (if IQR > 0 then
                    let lower_bound = Q1 - (3 / 2) * IQR;
                        upper_bound = Q3 + (3 / 2) * IQR;
                        outliers = filter (\<lambda>v. v < lower_bound \<or> v > upper_bound) numeric_series
                    in if length outliers > 0
                       then [''Statistical outliers detected (''
                             @ format_1f lib
                                 (of_nat (length outliers) / of_nat (length numeric_series) * 100)
                             @ ''%) - review extreme values'']
                       else []
                  else []);
               range_finding =
                 (case (series_max numeric_series, series_min numeric_series) of
                    (Some mx, Some mn) \<Rightarrow>
                      if mx - mn = 0
                      then [''All numeric values are identical - consider constant handling'']
                      else []
                  | _ \<Rightarrow> [])
           in outlier_finding @ range_finding)"

text \<open>
  \<open>str.contains('@.*@')\<close>: two \<open>@\<close> with no line break between them, that is, on one
  line of the text.
\<close>

definition contains_two_at :: "string \<Rightarrow> bool" where
  "contains_two_at s \<longleftrightarrow>
     list_ex (\<lambda>line. length (filter (\<lambda>c. c = CHR ''@'') line) \<ge> 2) (split_on newline s)"

text \<open>
  The square of \<open>Series.std()\<close> (the sample variance, \<open>ddof = 1\<close>); \<open>None\<close> is the NaN of
  a series with fewer than two values.
\<close>

definition sample_variance :: "rat list \<Rightarrow> rat option" where
  "sample_variance xs =
     (let n = length xs
      in if n < 2 then None
         else let mean = sum_list xs / of_nat n
              in Some (sum_list (map (\<lambda>x. (x - mean) * (x - mean)) xs) / of_nat (n - 1)))"

text \<open>
  \<open>_analyze_pattern_quality\<close>. \<open>lengths.std() > 2\<close> is stated on the variance:
  the standard deviation exceeds 2 when the variance exceeds 4.
\<close>

definition analyze_pattern_quality :: "string list \<Rightarrow> string \<Rightarrow> string list" where
  "analyze_pattern_quality series pattern_type =
     (if pattern_type = ''email'' then
        (if list_ex contains_two_at series
         then [''Multiple @ symbols detected in some email addresses''] else [])
      else if pattern_type = ''phone'' then
        (case sample_variance (map (\<lambda>s. of_nat (length s)) series) of
           Some v \<Rightarrow>
             if v > 4
             then [''Inconsistent phone number formats - consider standardization'']
             else []
         | None \<Rightarrow> [])
      else [])"

text \<open>\<open>_generate_cleaning_recommendations\<close>; \<open>"string" in data_type\<close> is a substring test.\<close>

definition generate_cleaning_recommendations ::
  "pylib \<Rightarrow> series \<Rightarrow> string \<Rightarrow> rat \<Rightarrow> string list" where
  "generate_cleaning_recommendations lib series dtype null_pct =
     (let recommendations =
            (if null_pct > 50 then
               [''High null rate ('' @ format_1f lib null_pct @ ''%) - evaluate column necessity'']
             else if null_pct > 20 then
               [''Significant null rate ('' @ format_1f lib null_pct
                @ ''%) - implement null handling strategy'']
             else if null_pct > 5 then
               [''Moderate null rate ('' @ format_1f lib null_pct
                @ ''%) - consider default values'']
             else []);
          non_null_series = dropna series
      in if length non_null_series = 0 then recommendations
         else if sublist ''string'' dtype then
           recommendations @ analyze_string_quality lib non_null_series
         else if dtype \<in> set [''decimal'', ''int'', ''bigint'', ''tinyint'', ''smallint''] then
           recommendations @ analyze_numeric_quality lib non_null_series
         else if dtype \<in> set [''email'', ''phone'', ''url''] then
           recommendations @ analyze_pattern_quality non_null_series dtype
         else recommendations)"

text \<open>\<open>analyze_column\<close>, for the column \<open>series\<close> named \<open>nm\<close>\<close>

definition analyze_column :: "pylib \<Rightarrow> string \<Rightarrow> series \<Rightarrow> ColumnAnalysis" where
  "analyze_column lib nm series =
     (let total = length series;
          nulls = length (filter (\<lambda>c. c = None) series);
          null_pct = (if total > 0 then (of_nat nulls / of_nat total) * 100 else (0 :: rat));
          uniques = length (remdups (dropna series));
          non_null_series = dropna series;
          samples = (if length non_null_series > 0 then take 5 non_null_series else []);
          (dtype, mtype) = infer_types lib series;
          recommendations = generate_cleaning_recommendations lib series dtype null_pct
      in \<lparr> name = nm,
           data_type = dtype,
           mysql_type = mtype,
           sample_values = samples,
           null_count = int nulls,
           unique_count = int uniques,
           total_count = int total,
           null_percentage = round_2 lib null_pct,
           description = [],
           cleaning_recommendations = recommendations \<rparr>)"

section \<open>Notions of the specification\<close>

text \<open>The numeric range of each MySQL integer type.\<close>

definition mysql_int_range :: "string \<Rightarrow> (int \<times> int) option" where
  "mysql_int_range target_type =
     map_of
       [(''TINYINT UNSIGNED'', (0, 255)),
        (''SMALLINT UNSIGNED'', (0, 65535)),
        (''INT UNSIGNED'', (0, 4294967295)),
        (''BIGINT UNSIGNED'', (0, 18446744073709551615)),
        (''TINYINT'', (- 128, 127)),
        (''SMALLINT'', (- 32768, 32767)),
        (''INT'', (- 2147483648, 2147483647)),
        (''BIGINT'', (- 9223372036854775808, 9223372036854775807))]
       target_type"

text \<open>The logical types of the integer family, and those below the 64-bit types.\<close>

definition integer_types :: "string list" where
  "integer_types =
     [''tinyint_unsigned'', ''smallint_unsigned'', ''int_unsigned'', ''bigint_unsigned'',
      ''tinyint'', ''smallint'', ''int'', ''bigint'']"

definition checked_integer_types :: "string list" where
  "checked_integer_types =
     [''tinyint_unsigned'', ''smallint_unsigned'', ''int_unsigned'',
      ''tinyint'', ''smallint'', ''int'']"

text \<open>The numbers observed in a column: the coerced values of its non-null cells.\<close>

definition observed_values :: "pylib \<Rightarrow> series \<Rightarrow> rat list" where
  "observed_values lib series = dropna (map (to_numeric lib) (dropna series))"

text \<open>The number of cells a pattern matches; a pattern that does not compile matches none.\<close>

definition match_count :: "pylib \<Rightarrow> string \<Rightarrow> string list \<Rightarrow> nat" where
  "match_count lib pattern str_series =
     (case str_match lib pattern of
        None \<Rightarrow> 0
      | Some m \<Rightarrow> length (filter m str_series))"

text \<open>Strictly more than 80% of the cells match the pattern.\<close>

definition clears_threshold :: "pylib \<Rightarrow> string list \<Rightarrow> string \<Rightarrow> bool" where
  "clears_threshold lib str_series pattern \<longleftrightarrow>
     5 * match_count lib pattern str_series > 4 * length str_series"

text \<open>
  A column reaches the numeric phase when it has a non-null cell and no pattern was
  detected on its trimmed non-null cells.
\<close>

definition reaches_numeric_phase :: "pylib \<Rightarrow> series \<Rightarrow> bool" where
  "reaches_numeric_phase lib col \<longleftrightarrow>
     dropna col \<noteq> [] \<and> detect_patterns lib (map str_strip (dropna col)) = None"

text \<open>A sanitized identifier: what \<open>sanitize_identifier\<close> leaves unchanged.\<close>

definition clean_ident :: "string \<Rightarrow> bool" where
  "clean_ident s \<longleftrightarrow>
     s \<noteq> [] \<and> list_all is_ident_char s \<and> \<not> isdigit (hd s) \<and> length s \<le> 64"

text \<open>
  The text of one column definition as the specification words it: the quoted identifier
  (suffixed when reserved), the target type, the null constraint and, for a non-empty
  description, the comment clause, each separated by one space. An empty target type
  leaves no gap.
\<close>

definition column_identifier :: "ColumnAnalysis \<Rightarrow> string" where
  "column_identifier c =
     (let s = sanitize_identifier (name c)
      in if str_lower s \<in> set reserved_words then s @ ''_col'' else s)"

definition comment_clause :: "ColumnAnalysis \<Rightarrow> string" where
  "comment_clause c =
     ''COMMENT '' @ [quote]
     @ take 100 (str_replace quote [backslash, quote] (description c)) @ [quote]"

definition column_definition_text :: "ColumnAnalysis \<Rightarrow> string" where
  "column_definition_text c =
     ''    `'' @ column_identifier c @ ''`''
     @ (if mysql_type c = [] then [] else '' '' @ mysql_type c)
     @ '' '' @ (if null_count c > 0 then ''NULL'' else ''NOT NULL'')
     @ (if description c = [] then [] else '' '' @ comment_clause c)"

section \<open>Stand-ins for the library on plain inputs\<close>

text \<open>
  For evaluation on concrete columns: a coercion that reads the integer literals
  \<open>-?[0-9]+\<close> as pandas does and takes every other text for non-numeric; a pattern matcher
  for columns none of whose cells match any of the seven patterns; a one-decimal format
  for non-negative numbers with one decimal digit.
\<close>

definition ascii_digit :: "char \<Rightarrow> bool" where
  "ascii_digit c \<longleftrightarrow> c \<in> set ''0123456789''"

definition digits_value :: "string \<Rightarrow> int" where
  "digits_value s = foldl (\<lambda>a c. 10 * a + (of_char c - 48)) 0 s"

definition int_literal :: "string \<Rightarrow> rat option" where
  "int_literal s =
     (case s of
        [] \<Rightarrow> None
      | c # r \<Rightarrow>
          if c = CHR ''-'' then
            (if r \<noteq> [] \<and> list_all ascii_digit r then Some (- of_int (digits_value r)) else None)
          else if list_all ascii_digit s then Some (of_int (digits_value s))
          else None)"

definition one_decimal :: "rat \<Rightarrow> string" where
  "one_decimal x = str_of_nat (nat \<lfloor>x\<rfloor>) @ ''.'' @ str_of_nat (nat \<lfloor>x * 10\<rfloor> mod 10)"

definition plain_lib :: pylib where
  "plain_lib =
     \<lparr> str_match = (\<lambda>p. Some (\<lambda>s. False)),
       to_numeric = int_literal,
       float_str = (\<lambda>x. []),
       format_1f = one_decimal,
       round_2 = (\<lambda>x. x) \<rparr>"

text \<open>
  A matcher for columns of simple e-mail addresses: the first pattern matches the cells
  with an \<open>@\<close>, the other patterns match nothing.
\<close>

definition email_lib :: pylib where
  "email_lib =
     plain_lib \<lparr> str_match :=
       (\<lambda>p. if p = snd (hd TYPE_PATTERNS) then Some (\<lambda>s. CHR ''@'' \<in> set s)
            else Some (\<lambda>s. False)) \<rparr>"

text \<open>Two analyzed columns for the examples.\<close>

definition created_at_column :: ColumnAnalysis where
  "created_at_column =
     \<lparr> name = ''created-at'', data_type = ''date'', mysql_type = ''DATE'',
       sample_values = [''2023-01-01'', ''2023-01-02'', ''2023-01-03''],
       null_count = 0, unique_count = 3, total_count = 3, null_percentage = 0,
       description = [], cleaning_recommendations = [] \<rparr>"

definition quoted_column :: ColumnAnalysis where
  "quoted_column =
     created_at_column \<lparr> description := replicate 99 (CHR ''a'') @ [quote] \<rparr>"

text \<open>Columns for the examples of the classifier.\<close>

definition email_column :: series where
  "email_column = [Some ''ann@mail.com'', None, Some '' bob@mail.org '']"

definition mostly_numeric_column :: series where
  "mostly_numeric_column = replicate 91 (Some ''7'') @ replicate 9 (Some ''abc'')"

definition mostly_text_column :: series where
  "mostly_text_column = replicate 89 (Some ''7'') @ replicate 11 (Some ''abc'')"

definition null_column :: series where
  "null_column = [None, None, None]"

definition identical_column :: series where
  "identical_column = [Some ''5'', Some ''5'', Some ''5'']"

definition huge_column :: series where
  "huge_column = [Some ''100000000000000000000'']"

definition signed_column :: series where
  "signed_column = [Some ''-5'', None, Some ''300'']"

definition permuted_signed_column :: series where
  "permuted_signed_column = [Some ''300'', None, Some ''-5'']"

section \<open>Identifier sanitization\<close>

lemma underscore_ident: "is_ident_char (CHR ''_'')"
  by (simp add: is_ident_char_def)

lemma ident_lits:
  "is_ident_char (CHR ''c'')" "is_ident_char (CHR ''o'')" "is_ident_char (CHR ''l'')"
  "is_ident_char (CHR ''t'')" "is_ident_char (CHR ''r'')"
  by (simp_all add: is_ident_char_def)

lemma not_digit_c: "\<not> isdigit (CHR ''c'')"
  by (simp add: isdigit_def)

lemma map_ident_id:
  "list_all is_ident_char s \<Longrightarrow> map (\<lambda>c. if is_ident_char c then c else CHR ''_'') s = s"
  by (induction s) auto

lemma subst_all_ident:
  "list_all is_ident_char (map (\<lambda>c. if is_ident_char c then c else CHR ''_'') s)"
  by (induction s) (simp_all add: underscore_ident)

lemma list_all_take: "list_all P xs \<Longrightarrow> list_all P (take n xs)"
  by (simp add: list_all_iff) (meson in_set_takeD)

lemma hd_take_app: "xs \<noteq> [] \<Longrightarrow> n > 0 \<Longrightarrow> hd (take n xs @ ys) = hd xs"
  by (cases xs; cases n) auto

lemma sanitize_clean_id: "clean_ident s \<Longrightarrow> sanitize_identifier s = s"
  by (simp add: clean_ident_def sanitize_identifier_def map_ident_id Let_def)

lemma sanitize_clean: "clean_ident (sanitize_identifier s)"
proof (cases "s = []")
  case True
  then show ?thesis
    by (simp add: sanitize_identifier_def clean_ident_def is_ident_char_def isdigit_def)
next
  case False
  define t where "t = map (\<lambda>c. if is_ident_char c then c else CHR ''_'') s"
  define u where "u = (if t \<noteq> [] \<and> isdigit (hd t) then ''col_'' @ t else t)"
  have t: "t \<noteq> []" "list_all is_ident_char t"
    using False by (simp_all add: t_def subst_all_ident)
  have u: "u \<noteq> []" "list_all is_ident_char u" "\<not> isdigit (hd u)"
    using t by (auto simp: u_def ident_lits underscore_ident not_digit_c)
  have eq: "sanitize_identifier s = (if length u > 64 then take 61 u @ ''_tr'' else u)"
    using False u(1) by (simp add: sanitize_identifier_def Let_def t_def u_def)
  show ?thesis
  proof (cases "length u > 64")
    case True
    have "hd (take 61 u @ ''_tr'') = hd u"
      using u(1) by (rule hd_take_app) simp
    then show ?thesis
      using True u eq by (simp add: clean_ident_def list_all_take ident_lits underscore_ident)
  next
    case False
    then show ?thesis using u eq by (simp add: clean_ident_def)
  qed
qed

text \<open>
  C7: sanitization is idempotent: for every string \<open>x\<close>, sanitizing the sanitized \<open>x\<close>
  gives the sanitized \<open>x\<close> again, where sanitization replaces each character outside
  \<open>[A-Za-z0-9_]\<close> by an underscore, prefixes \<open>col_\<close> to a leading digit, substitutes
  \<open>unnamed_column\<close> for the empty name and cuts a result of more than 64 characters to
  61 characters followed by \<open>_tr\<close>.
\<close>

theorem sanitize_identifier_idempotent:
  "sanitize_identifier (sanitize_identifier x) = sanitize_identifier x"
  by (rule sanitize_clean_id [OF sanitize_clean])

theorem sanitize_identifier_idempotent_witness:
  "sanitize_identifier (sanitize_identifier ''9 lives'') = ''col_9_lives''"
  using sanitize_identifier_idempotent [of "''9 lives''"]
  by (simp add: sanitize_identifier_def is_ident_char_def isdigit_def)

section \<open>The text of the DDL\<close>

lemma column_definition_eq: "generate_column_definition c = column_definition_text c"
  by (simp add: generate_column_definition_def column_definition_text_def
      column_identifier_def comment_clause_def Let_def)

lemma generate_ddl_text:
  "generate_ddl t cols =
     ''CREATE TABLE `'' @ sanitize_identifier t @ ''` ('' @ [newline]
     @ py_join ('','' @ [newline]) (map column_definition_text cols) @ [newline]
     @ '') ENGINE=InnoDB DEFAULT CHARSET=utf8mb4 COLLATE=utf8mb4_unicode_ci;''"
proof -
  have h: "map generate_column_definition cols = map column_definition_text cols"
    by (simp add: column_definition_eq)
  show ?thesis
    unfolding generate_ddl_def Let_def h by simp
qed

lemma sanitize_select: "sanitize_identifier ''select'' = ''select''"
  by (simp add: sanitize_identifier_def is_ident_char_def isdigit_def)

lemma sanitize_created_at: "sanitize_identifier ''created-at'' = ''created_at''"
  by (simp add: sanitize_identifier_def is_ident_char_def isdigit_def)

lemma lower_created_at: "str_lower ''created_at'' = ''created_at''"
  by (simp add: str_lower_def lower_char_def)

lemma created_at_not_reserved: "''created_at'' \<notin> set reserved_words"
  by (simp add: reserved_words_def)

lemma ident_created_at: "name c = ''created-at'' \<Longrightarrow> column_identifier c = ''created_at''"
  by (simp add: column_identifier_def sanitize_created_at lower_created_at
      created_at_not_reserved)

lemma created_at_ddl:
  "generate_ddl ''select'' [created_at_column] =
     ''CREATE TABLE `select` ('' @ [newline]
     @ ''    `created_at` DATE NOT NULL'' @ [newline]
     @ '') ENGINE=InnoDB DEFAULT CHARSET=utf8mb4 COLLATE=utf8mb4_unicode_ci;''"
  by code_simp

text \<open>
  C5: for every table name and list of analyzed columns, the DDL is the fixed wrapper
  around the sanitized table name and the column definitions, one per input column in
  input order, joined by a comma and a line break; each definition is the quoted
  sanitized column name (with \<open>_col\<close> appended when its lowercase form is reserved), the
  target type, \<open>NULL\<close> when the null count is positive and \<open>NOT NULL\<close> otherwise, and
  a comment clause exactly when the description is non-empty.
\<close>

theorem generate_ddl_structure:
  "generate_ddl t cols =
     ''CREATE TABLE `'' @ sanitize_identifier t @ ''` ('' @ [newline]
     @ py_join ('','' @ [newline]) (map column_definition_text cols) @ [newline]
     @ '') ENGINE=InnoDB DEFAULT CHARSET=utf8mb4 COLLATE=utf8mb4_unicode_ci;''
   \<and> length (map generate_column_definition cols) = length cols
   \<and> (\<forall>i < length cols. map generate_column_definition cols ! i = column_definition_text (cols ! i))"
  by (simp add: generate_ddl_text column_definition_eq)

theorem generate_ddl_structure_witness:
  "generate_ddl ''my table'' [created_at_column, quoted_column] =
     ''CREATE TABLE `my_table` ('' @ [newline]
     @ column_definition_text created_at_column @ '','' @ [newline]
     @ column_definition_text quoted_column @ [newline]
     @ '') ENGINE=InnoDB DEFAULT CHARSET=utf8mb4 COLLATE=utf8mb4_unicode_ci;''"
  using generate_ddl_structure [of "''my table''" "[created_at_column, quoted_column]"]
  by (simp add: sanitize_identifier_def is_ident_char_def isdigit_def)

text \<open>
  C6, as stated: for the table name \<open>select\<close> and the single column \<open>created-at\<close> the DDL
  contains the identifier \<open>`select_col`\<close> and renders the column as \<open>`created_at`\<close>.
  The first part fails: the table name is sanitized only, never tested against the
  reserved words.
\<close>

theorem select_table_counterexample:
  "\<not> (sublist ''`select_col`'' (generate_ddl ''select'' [created_at_column])
      \<and> sublist ''`created_at`'' (generate_ddl ''select'' [created_at_column]))"
  unfolding created_at_ddl by code_simp

text \<open>
  C6, amended: for the table name \<open>select\<close> and a single analyzed column named
  \<open>created-at\<close>, the DDL opens with \<open>CREATE TABLE `select` (\<close>, the table name
  unsuffixed, and the column definition on the next line renders the column name as
  \<open>`created_at`\<close>.
\<close>

theorem select_table_created_at_column:
  "name c = ''created-at'' \<Longrightarrow>
     \<exists>rest. generate_ddl ''select'' [c] =
       ''CREATE TABLE `select` ('' @ [newline] @ ''    `created_at`'' @ rest"
  by (simp add: generate_ddl_text sanitize_select column_definition_text_def ident_created_at)

theorem select_table_created_at_column_witness:
  "name created_at_column = ''created-at''
   \<and> (\<exists>rest. generate_ddl ''select'' [created_at_column] =
         ''CREATE TABLE `select` ('' @ [newline] @ ''    `created_at`'' @ rest)"
proof -
  have h: "name created_at_column = ''created-at''"
    by (simp add: created_at_column_def)
  show ?thesis
    using h select_table_created_at_column [OF h] by blast
qed

lemma escape_append: "str_replace c new (a @ b) = str_replace c new a @ str_replace c new b"
  by (simp add: str_replace_def)

lemma escape_quote_cons:
  "str_replace quote [backslash, quote] (quote # b) =
     backslash # quote # str_replace quote [backslash, quote] b"
  by (simp add: str_replace_def)

text \<open>
  C10: when the description is non-empty, the comment text is the description with every
  single quote replaced by backslash and quote, cut to its first 100 characters
  afterwards. So when an escaped quote of the description has its backslash at index 99 of
  the escaped text, the comment text ends in that backslash alone, and the column
  definition ends in a backslash followed by the closing quote of the clause.
\<close>

theorem comment_truncated_after_escaping:
  "description c \<noteq> [] \<Longrightarrow>
     (\<exists>pre. generate_column_definition c =
        pre @ ''COMMENT '' @ [quote]
        @ take 100 (str_replace quote [backslash, quote] (description c)) @ [quote])
     \<and> (\<forall>a b. description c = a @ quote # b
                \<and> length (str_replace quote [backslash, quote] a) = 99
            \<longrightarrow> take 100 (str_replace quote [backslash, quote] (description c))
                  = str_replace quote [backslash, quote] a @ [backslash]
                \<and> (\<exists>pre. generate_column_definition c = pre @ [backslash, quote]))"
proof (intro conjI allI impI)
  assume d: "description c \<noteq> []"
  show "\<exists>pre. generate_column_definition c =
        pre @ ''COMMENT '' @ [quote]
        @ take 100 (str_replace quote [backslash, quote] (description c)) @ [quote]"
    using d by (simp add: column_definition_eq column_definition_text_def comment_clause_def)
  fix a b
  assume ab: "description c = a @ quote # b
                \<and> length (str_replace quote [backslash, quote] a) = 99"
  then show t: "take 100 (str_replace quote [backslash, quote] (description c))
                  = str_replace quote [backslash, quote] a @ [backslash]"
    by (simp add: escape_append escape_quote_cons)
  show "\<exists>pre. generate_column_definition c = pre @ [backslash, quote]"
    using d by (simp add: column_definition_eq column_definition_text_def comment_clause_def t)
qed

theorem comment_truncated_after_escaping_witness:
  "description quoted_column \<noteq> []
   \<and> (\<exists>pre. generate_column_definition quoted_column = pre @ [backslash, quote])"
proof -
  have d: "description quoted_column \<noteq> []"
    by (simp add: quoted_column_def)
  have e: "description quoted_column = replicate 99 (CHR ''a'') @ quote # []"
    by (simp add: quoted_column_def)
  have l: "length (str_replace quote [backslash, quote] (replicate 99 (CHR ''a''))) = 99"
    by (simp add: str_replace_def quote_def length_concat comp_def)
  from comment_truncated_after_escaping [OF d] e l show ?thesis
    using d by blast
qed

section \<open>Pattern detection\<close>

lemma threshold_80: "((of_nat k :: rat) > of_nat n * (8 / 10)) \<longleftrightarrow> 5 * k > 4 * n"
proof -
  have "((of_nat k :: rat) > of_nat n * (8 / 10)) \<longleftrightarrow> (of_nat (4 * n) :: rat) < of_nat (5 * k)"
    by (simp add: field_simps)
  also have "\<dots> \<longleftrightarrow> 4 * n < 5 * k"
    by (rule of_nat_less_iff)
  finally show ?thesis .
qed

lemma threshold_90: "((of_nat k :: rat) < of_nat n * (9 / 10)) \<longleftrightarrow> 10 * k < 9 * n"
proof -
  have "((of_nat k :: rat) < of_nat n * (9 / 10)) \<longleftrightarrow> (of_nat (10 * k) :: rat) < of_nat (9 * n)"
    by (simp add: field_simps)
  also have "\<dots> \<longleftrightarrow> 10 * k < 9 * n"
    by (rule of_nat_less_iff)
  finally show ?thesis .
qed

lemma detect_loop_find:
  "detect_patterns_loop lib strs ps =
     map_option fst (find (\<lambda>p. clears_threshold lib strs (snd p)) ps)"
proof (induction ps)
  case Nil
  show ?case by simp
next
  case (Cons p ps)
  obtain nm pat where p: "p = (nm, pat)" by (cases p)
  show ?case
    using Cons
    by (simp add: p clears_threshold_def match_count_def threshold_80 split: option.splits)
qed

lemma find_idx1:
  assumes "find P ps = Some x"
  shows "\<exists>i < length ps. x = ps ! i \<and> P (ps ! i) \<and> (\<forall>j < i. \<not> P (ps ! j))"
  using assms find_Some_iff [of P ps x] by auto

lemma find_idx2:
  assumes "i < length ps" "P (ps ! i)" "\<forall>j < i. \<not> P (ps ! j)"
  shows "find P ps = Some (ps ! i)"
  using assms find_Some_iff [of P ps "ps ! i"] by auto

lemma find_none_idx: "find P ps = None \<longleftrightarrow> (\<forall>i < length ps. \<not> P (ps ! i))"
  by (auto simp: find_None_iff in_set_conv_nth)

lemma detect_loop_Some_iff:
  "detect_patterns_loop lib strs ps = Some nm \<longleftrightarrow>
     (\<exists>i < length ps. fst (ps ! i) = nm \<and> clears_threshold lib strs (snd (ps ! i))
        \<and> (\<forall>j < i. \<not> clears_threshold lib strs (snd (ps ! j))))"
proof
  assume "detect_patterns_loop lib strs ps = Some nm"
  then obtain x where x: "find (\<lambda>p. clears_threshold lib strs (snd p)) ps = Some x" "fst x = nm"
    unfolding detect_loop_find by auto
  from find_idx1 [OF x(1)] x(2)
  show "\<exists>i < length ps. fst (ps ! i) = nm \<and> clears_threshold lib strs (snd (ps ! i))
        \<and> (\<forall>j < i. \<not> clears_threshold lib strs (snd (ps ! j)))"
    by auto
next
  assume "\<exists>i < length ps. fst (ps ! i) = nm \<and> clears_threshold lib strs (snd (ps ! i))
        \<and> (\<forall>j < i. \<not> clears_threshold lib strs (snd (ps ! j)))"
  then obtain i where i: "i < length ps" "fst (ps ! i) = nm"
      "clears_threshold lib strs (snd (ps ! i))"
      "\<forall>j < i. \<not> clears_threshold lib strs (snd (ps ! j))"
    by blast
  have "find (\<lambda>p. clears_threshold lib strs (snd p)) ps = Some (ps ! i)"
    by (rule find_idx2) (use i in auto)
  then show "detect_patterns_loop lib strs ps = Some nm"
    unfolding detect_loop_find using i(2) by simp
qed

lemma detect_loop_None_iff:
  "detect_patterns_loop lib strs ps = None \<longleftrightarrow>
     (\<forall>i < length ps. \<not> clears_threshold lib strs (snd (ps ! i)))"
  unfolding detect_loop_find by (simp add: find_none_idx)

lemma pattern_names:
  "map fst TYPE_PATTERNS = [''email'', ''phone'', ''url'', ''date'', ''time'', ''boolean'', ''uuid'']"
  by (simp add: TYPE_PATTERNS_def)

lemma detect_loop_name: "detect_patterns_loop lib strs ps = Some nm \<Longrightarrow> nm \<in> set (map fst ps)"
  by (induction ps) (auto split: option.splits if_splits)

lemma detect_patterns_nonempty: "detect_patterns lib strs = Some nm \<Longrightarrow> nm \<noteq> []"
proof -
  assume "detect_patterns lib strs = Some nm"
  then have "nm \<in> set (map fst TYPE_PATTERNS)"
    unfolding detect_patterns_def by (rule detect_loop_name)
  then show ?thesis
    unfolding pattern_names by auto
qed

lemma infer_types_pattern:
  "dropna series \<noteq> [] \<Longrightarrow> detect_patterns lib (map str_strip (dropna series)) = Some nm
   \<Longrightarrow> infer_types lib series = (nm, get_mysql_type_for_pattern nm)"
  by (simp add: infer_types_def Let_def detect_patterns_nonempty)

lemma pattern_targets:
  "map get_mysql_type_for_pattern [''email'', ''phone'', ''url'', ''date'', ''time'', ''boolean'', ''uuid'']
   = [''VARCHAR(100)'', ''VARCHAR(25)'', ''VARCHAR(500)'', ''DATE'', ''TIME'', ''BOOLEAN'', ''CHAR(36)'']"
  by (simp add: get_mysql_type_for_pattern_def)



text \<open>
  C3: on the trimmed non-null strings of a column, a pattern is accepted exactly when
  strictly more than 80% of the strings match it; the patterns are tried in the order
  email, phone, url, date, time, boolean, uuid and the first one that clears the
  threshold is the result, none when no pattern clears it; the detected pattern is the
  logical type and fixes the target type: email VARCHAR(100), phone VARCHAR(25), url
  VARCHAR(500), date DATE, time TIME, boolean BOOLEAN, uuid CHAR(36).
\<close>

theorem pattern_detection_first_match:
  "map fst TYPE_PATTERNS =
     [''email'', ''phone'', ''url'', ''date'', ''time'', ''boolean'', ''uuid'']
   \<and> (detect_patterns lib strs = Some nm \<longleftrightarrow>
        (\<exists>i < length TYPE_PATTERNS.
            fst (TYPE_PATTERNS ! i) = nm
            \<and> clears_threshold lib strs (snd (TYPE_PATTERNS ! i))
            \<and> (\<forall>j < i. \<not> clears_threshold lib strs (snd (TYPE_PATTERNS ! j)))))
   \<and> (detect_patterns lib strs = None \<longleftrightarrow>
        (\<forall>i < length TYPE_PATTERNS. \<not> clears_threshold lib strs (snd (TYPE_PATTERNS ! i))))
   \<and> (dropna series \<noteq> [] \<and> detect_patterns lib (map str_strip (dropna series)) = Some nm
        \<longrightarrow> infer_types lib series = (nm, get_mysql_type_for_pattern nm))
   \<and> map get_mysql_type_for_pattern
        [''email'', ''phone'', ''url'', ''date'', ''time'', ''boolean'', ''uuid'']
      = [''VARCHAR(100)'', ''VARCHAR(25)'', ''VARCHAR(500)'', ''DATE'', ''TIME'', ''BOOLEAN'',
         ''CHAR(36)'']"
proof (intro conjI impI)
  show "map fst TYPE_PATTERNS =
     [''email'', ''phone'', ''url'', ''date'', ''time'', ''boolean'', ''uuid'']"
    by (rule pattern_names)
  show "detect_patterns lib strs = Some nm \<longleftrightarrow>
        (\<exists>i < length TYPE_PATTERNS.
            fst (TYPE_PATTERNS ! i) = nm
            \<and> clears_threshold lib strs (snd (TYPE_PATTERNS ! i))
            \<and> (\<forall>j < i. \<not> clears_threshold lib strs (snd (TYPE_PATTERNS ! j))))"
    unfolding detect_patterns_def by (rule detect_loop_Some_iff)
  show "detect_patterns lib strs = None \<longleftrightarrow>
        (\<forall>i < length TYPE_PATTERNS. \<not> clears_threshold lib strs (snd (TYPE_PATTERNS ! i)))"
    unfolding detect_patterns_def by (rule detect_loop_None_iff)
  show "infer_types lib series = (nm, get_mysql_type_for_pattern nm)"
    if "dropna series \<noteq> [] \<and> detect_patterns lib (map str_strip (dropna series)) = Some nm"
    using that by (simp add: infer_types_pattern)
  show "map get_mysql_type_for_pattern
        [''email'', ''phone'', ''url'', ''date'', ''time'', ''boolean'', ''uuid'']
      = [''VARCHAR(100)'', ''VARCHAR(25)'', ''VARCHAR(500)'', ''DATE'', ''TIME'', ''BOOLEAN'',
         ''CHAR(36)'']"
    by (rule pattern_targets)
qed

theorem pattern_detection_first_match_witness:
  "dropna email_column \<noteq> []
   \<and> detect_patterns email_lib (map str_strip (dropna email_column)) = Some ''email''
   \<and> infer_types email_lib email_column = (''email'', ''VARCHAR(100)'')"
proof -
  have n: "dropna email_column \<noteq> []"
    by (simp add: email_column_def)
  have d: "detect_patterns email_lib (map str_strip (dropna email_column)) = Some ''email''"
    by code_simp
  from pattern_detection_first_match
         [of email_lib "map str_strip (dropna email_column)" "''email''" email_column] n d
  have "infer_types email_lib email_column = (''email'', get_mysql_type_for_pattern ''email'')"
    by blast
  then show ?thesis
    using n d by (simp add: get_mysql_type_for_pattern_def)
qed

section \<open>Numeric detection\<close>

lemma detect_numeric_iff:
  "detect_numeric_types lib s \<noteq> None \<longleftrightarrow>
     10 * length (dropna (map (to_numeric lib) s)) \<ge> 9 * length s"
  by (simp add: detect_numeric_types_def Let_def threshold_90 not_less)

lemma detect_numeric_Some:
  "10 * length (dropna (map (to_numeric lib) s)) \<ge> 9 * length s \<Longrightarrow>
   detect_numeric_types lib s =
     Some (if list_all (\<lambda>v. frac v = 0) (dropna (map (to_numeric lib) s))
           then classify_integer_type (dropna (map (to_numeric lib) s))
           else classify_decimal_type lib (dropna (map (to_numeric lib) s)))"
  by (simp add: detect_numeric_types_def Let_def threshold_90 not_less)

lemma detect_numeric_None:
  "10 * length (dropna (map (to_numeric lib) s)) < 9 * length s \<Longrightarrow>
   detect_numeric_types lib s = None"
  by (simp add: detect_numeric_types_def Let_def threshold_90)

lemma classify_integer_tag: "fst (classify_integer_type xs) \<in> set integer_types"
  by (simp add: classify_integer_type_def integer_types_def split: option.splits)

lemma infer_types_numeric:
  "reaches_numeric_phase lib col \<Longrightarrow>
   infer_types lib col =
     (case detect_numeric_types lib (dropna col) of
        Some t \<Rightarrow> t
      | None \<Rightarrow> analyze_string_type (map str_strip (dropna col)))"
  by (simp add: reaches_numeric_phase_def infer_types_def Let_def)


text \<open>
  C4: a column that reached the numeric phase qualifies as numeric exactly when at least
  90% of its non-null cells coerce to numbers; then its types are those of the integer or
  of the decimal classification of the coerced values, and otherwise those of the string
  classification of its trimmed cells. In particular, with 100 non-null cells of which 91
  coerce, all to integers, the logical type is an integer type, and with 100 non-null
  cells of which 89 coerce the column falls through to the string classification.
\<close>

theorem numeric_threshold:
  "reaches_numeric_phase lib col \<Longrightarrow>
     (detect_numeric_types lib (dropna col) \<noteq> None \<longleftrightarrow>
        10 * length (observed_values lib col) \<ge> 9 * length (dropna col))
     \<and> (10 * length (observed_values lib col) \<ge> 9 * length (dropna col) \<longrightarrow>
          infer_types lib col =
            (if list_all (\<lambda>v. frac v = 0) (observed_values lib col)
             then classify_integer_type (observed_values lib col)
             else classify_decimal_type lib (observed_values lib col)))
     \<and> (10 * length (observed_values lib col) < 9 * length (dropna col) \<longrightarrow>
          infer_types lib col = analyze_string_type (map str_strip (dropna col)))
     \<and> (length (dropna col) = 100 \<and> length (observed_values lib col) = 91
          \<and> list_all (\<lambda>v. frac v = 0) (observed_values lib col) \<longrightarrow>
          fst (infer_types lib col) \<in> set integer_types)
     \<and> (length (dropna col) = 100 \<and> length (observed_values lib col) = 89 \<longrightarrow>
          infer_types lib col = analyze_string_type (map str_strip (dropna col)))"
proof (intro conjI impI)
  assume r: "reaches_numeric_phase lib col"
  note inf = infer_types_numeric [OF r]
  show "detect_numeric_types lib (dropna col) \<noteq> None \<longleftrightarrow>
        10 * length (observed_values lib col) \<ge> 9 * length (dropna col)"
    unfolding observed_values_def by (rule detect_numeric_iff)
  show "infer_types lib col =
            (if list_all (\<lambda>v. frac v = 0) (observed_values lib col)
             then classify_integer_type (observed_values lib col)
             else classify_decimal_type lib (observed_values lib col))"
    if "10 * length (observed_values lib col) \<ge> 9 * length (dropna col)"
    using that unfolding observed_values_def inf by (simp add: detect_numeric_Some)
  show "infer_types lib col = analyze_string_type (map str_strip (dropna col))"
    if "10 * length (observed_values lib col) < 9 * length (dropna col)"
    using that unfolding observed_values_def inf by (simp add: detect_numeric_None)
  show "fst (infer_types lib col) \<in> set integer_types"
    if "length (dropna col) = 100 \<and> length (observed_values lib col) = 91
          \<and> list_all (\<lambda>v. frac v = 0) (observed_values lib col)"
    using that unfolding observed_values_def inf
    by (simp add: detect_numeric_Some classify_integer_tag)
  show "infer_types lib col = analyze_string_type (map str_strip (dropna col))"
    if "length (dropna col) = 100 \<and> length (observed_values lib col) = 89"
    using that unfolding observed_values_def inf by (simp add: detect_numeric_None)
qed

theorem numeric_threshold_witness:
  "reaches_numeric_phase plain_lib mostly_numeric_column
   \<and> length (dropna mostly_numeric_column) = 100
   \<and> length (observed_values plain_lib mostly_numeric_column) = 91
   \<and> fst (infer_types plain_lib mostly_numeric_column) \<in> set integer_types
   \<and> reaches_numeric_phase plain_lib mostly_text_column
   \<and> length (dropna mostly_text_column) = 100
   \<and> length (observed_values plain_lib mostly_text_column) = 89
   \<and> infer_types plain_lib mostly_text_column = (''short_string'', ''VARCHAR(13)'')"
proof -
  have r: "reaches_numeric_phase plain_lib mostly_numeric_column"
    by code_simp
  have l: "length (dropna mostly_numeric_column) = 100"
    by code_simp
  have v: "length (observed_values plain_lib mostly_numeric_column) = 91"
    by code_simp
  have i: "list_all (\<lambda>v. frac v = 0) (observed_values plain_lib mostly_numeric_column)"
    by code_simp
  have r': "reaches_numeric_phase plain_lib mostly_text_column"
    by code_simp
  have l': "length (dropna mostly_text_column) = 100"
    by code_simp
  have v': "length (observed_values plain_lib mostly_text_column) = 89"
    by code_simp
  have s: "analyze_string_type (map str_strip (dropna mostly_text_column))
             = (''short_string'', ''VARCHAR(13)'')"
    by code_simp
  from numeric_threshold [OF r] l v i
  have a: "fst (infer_types plain_lib mostly_numeric_column) \<in> set integer_types"
    by blast
  from numeric_threshold [OF r'] l' v'
  have "infer_types plain_lib mostly_text_column
          = analyze_string_type (map str_strip (dropna mostly_text_column))"
    by blast
  then show ?thesis
    using r l v a r' l' v' s by simp
qed

section \<open>Integer classification\<close>

lemma series_min_le: "series_min xs = Some m \<Longrightarrow> v \<in> set xs \<Longrightarrow> m \<le> v"
  by (cases xs) (auto simp: series_min_def Min.set_eq_fold [symmetric])

lemma series_max_ge: "series_max xs = Some m \<Longrightarrow> v \<in> set xs \<Longrightarrow> v \<le> m"
  by (cases xs) (auto simp: series_max_def Max.set_eq_fold [symmetric])

lemma series_min_max_nonempty:
  "xs \<noteq> [] \<Longrightarrow> \<exists>m M. series_min xs = Some m \<and> series_max xs = Some M"
  by (cases xs) (simp_all add: series_min_def series_max_def)

lemma classify_integer_empty: "classify_integer_type [] = (''bigint'', ''BIGINT'')"
  by (simp add: classify_integer_type_def series_min_def series_max_def)

lemma classify_integer_checked_range:
  "series_min xs = Some m \<Longrightarrow> series_max xs = Some M \<Longrightarrow>
   fst (classify_integer_type xs) \<in> set checked_integer_types \<Longrightarrow>
   \<exists>lo hi. mysql_int_range (snd (classify_integer_type xs)) = Some (lo, hi)
     \<and> of_int lo \<le> m \<and> M \<le> of_int hi"
  by (auto simp: classify_integer_type_def checked_integer_types_def mysql_int_range_def
      split: if_splits)

lemma classify_integer_unsigned:
  "series_min xs = Some m \<Longrightarrow> series_max xs = Some M \<Longrightarrow>
   fst (classify_integer_type xs) = ''bigint_unsigned'' \<Longrightarrow>
   snd (classify_integer_type xs) = ''BIGINT UNSIGNED'' \<and> 0 \<le> m"
  by (auto simp: classify_integer_type_def split: if_splits)

lemma classify_integer_checked:
  assumes "fst (classify_integer_type xs) \<in> set checked_integer_types"
  shows "\<exists>lo hi. mysql_int_range (snd (classify_integer_type xs)) = Some (lo, hi)
           \<and> (\<forall>v \<in> set xs. of_int lo \<le> v \<and> v \<le> of_int hi)"
proof (cases "xs = []")
  case True
  with assms show ?thesis
    by (simp add: classify_integer_empty checked_integer_types_def)
next
  case False
  then obtain m M where mM: "series_min xs = Some m" "series_max xs = Some M"
    using series_min_max_nonempty by blast
  from classify_integer_checked_range [OF mM assms]
  obtain lo hi where r: "mysql_int_range (snd (classify_integer_type xs)) = Some (lo, hi)"
      "of_int lo \<le> m" "M \<le> of_int hi"
    by blast
  have "of_int lo \<le> v \<and> v \<le> of_int hi" if "v \<in> set xs" for v
    using series_min_le [OF mM(1) that] series_max_ge [OF mM(2) that] r(2,3) by simp
  with r(1) show ?thesis by blast
qed

lemma classify_integer_bigint_unsigned:
  assumes "fst (classify_integer_type xs) = ''bigint_unsigned''"
  shows "snd (classify_integer_type xs) = ''BIGINT UNSIGNED'' \<and> (\<forall>v \<in> set xs. 0 \<le> v)"
proof (cases "xs = []")
  case True
  with assms show ?thesis
    by (simp add: classify_integer_empty)
next
  case False
  then obtain m M where mM: "series_min xs = Some m" "series_max xs = Some M"
    using series_min_max_nonempty by blast
  from classify_integer_unsigned [OF mM assms]
  have r: "snd (classify_integer_type xs) = ''BIGINT UNSIGNED''" "0 \<le> m"
    by simp_all
  have "0 \<le> v" if "v \<in> set xs" for v
    using series_min_le [OF mM(1) that] r(2) by simp
  with r(1) show ?thesis by blast
qed

lemma string_tag: "fst (analyze_string_type s) \<notin> set integer_types"
  by (simp add: analyze_string_type_def integer_types_def split: option.splits)

lemma decimal_tag: "fst (classify_decimal_type lib xs) \<notin> set integer_types"
  by (simp add: classify_decimal_type_def integer_types_def Let_def split: option.splits)

lemma pattern_tag: "detect_patterns lib strs = Some nm \<Longrightarrow> nm \<notin> set integer_types"
proof -
  assume "detect_patterns lib strs = Some nm"
  then have "nm \<in> set (map fst TYPE_PATTERNS)"
    unfolding detect_patterns_def by (rule detect_loop_name)
  then show ?thesis
    unfolding pattern_names by (auto simp: integer_types_def)
qed

lemma numeric_tag:
  "detect_numeric_types lib s = Some t \<Longrightarrow> fst t \<in> set integer_types \<Longrightarrow>
   t = classify_integer_type (dropna (map (to_numeric lib) s))"
  by (auto simp: detect_numeric_types_def Let_def decimal_tag split: if_splits)

lemma infer_integer_is_classify:
  assumes "fst (infer_types lib col) \<in> set integer_types"
  shows "infer_types lib col = classify_integer_type (observed_values lib col)"
proof (cases "dropna col = []")
  case True
  with assms show ?thesis
    by (simp add: infer_types_def integer_types_def)
next
  case False
  show ?thesis
  proof (cases "detect_patterns lib (map str_strip (dropna col))")
    case None
    show ?thesis
    proof (cases "detect_numeric_types lib (dropna col)")
      case n: None
      with assms None False show ?thesis
        by (simp add: infer_types_def Let_def string_tag)
    next
      case (Some t)
      with assms None False have "fst t \<in> set integer_types" "infer_types lib col = t"
        by (simp_all add: infer_types_def Let_def)
      with numeric_tag [OF Some] show ?thesis
        by (simp add: observed_values_def)
    qed
  next
    case (Some nm)
    have "nm \<noteq> []" "nm \<notin> set integer_types"
      using pattern_tag [OF Some] detect_loop_name [of lib _ TYPE_PATTERNS nm] Some
      unfolding detect_patterns_def pattern_names by auto
    with assms Some False show ?thesis
      by (simp add: infer_types_def Let_def)
  qed
qed

lemma checked_sub: "x \<in> set checked_integer_types \<Longrightarrow> x \<in> set integer_types"
  by (auto simp: checked_integer_types_def integer_types_def)

lemma literal_huge: "int_literal ''100000000000000000000'' = Some 100000000000000000000"
  by (simp add: int_literal_def ascii_digit_def digits_value_def)

lemma plain_lib_fields:
  "to_numeric plain_lib = int_literal" "str_match plain_lib = (\<lambda>p. Some (\<lambda>s. False))"
  "format_1f plain_lib = one_decimal"
  by (simp_all add: plain_lib_def)
lemma observed_huge: "observed_values plain_lib huge_column = [100000000000000000000]"
  by (simp add: observed_values_def huge_column_def plain_lib_fields literal_huge)
lemma classify_huge: "classify_integer_type [100000000000000000000] = (''bigint_unsigned'', ''BIGINT UNSIGNED'')"
  by (simp add: classify_integer_type_def series_min_def series_max_def)
lemma range_bigint_unsigned: "mysql_int_range ''BIGINT UNSIGNED'' = Some (0, 18446744073709551615)"
  by (simp add: mysql_int_range_def)
lemma plain_lib_no_pattern: "detect_patterns plain_lib strs = None"
  by (simp add: detect_patterns_def TYPE_PATTERNS_def plain_lib_fields)
lemma infer_huge: "infer_types plain_lib huge_column = (''bigint_unsigned'', ''BIGINT UNSIGNED'')"
  by (simp add: infer_types_def plain_lib_no_pattern detect_numeric_types_def Let_def huge_column_def plain_lib_fields literal_huge classify_huge)


text \<open>
  C1, as stated: every observed value of a column classified as an integer type lies
  within the range of the chosen MySQL type. It fails for the 64-bit types, which are the
  last branch of the classification and carry no bound: the column of the one cell
  \<open>100000000000000000000\<close> is classified \<open>BIGINT UNSIGNED\<close>, whose range ends at
  \<open>18446744073709551615\<close>.
\<close>

theorem integer_range_counterexample:
  "fst (infer_types plain_lib huge_column) \<in> set integer_types
   \<and> mysql_int_range (snd (infer_types plain_lib huge_column))
       = Some (0, 18446744073709551615)
   \<and> observed_values plain_lib huge_column = [100000000000000000000]
   \<and> \<not> (100000000000000000000 \<le> (of_int 18446744073709551615 :: rat))"
  by (simp add: infer_huge observed_huge range_bigint_unsigned integer_types_def)

text \<open>
  C1, amended: for every column that the classifier classifies as TINYINT, SMALLINT or
  INT, signed or unsigned, every observed coerced value of the column lies within the
  numeric range of the chosen MySQL type; for a column classified BIGINT UNSIGNED every
  observed value is at least 0. The 64-bit types are the fallback of the selection and
  promise no upper bound (and BIGINT no lower bound).
\<close>

theorem integer_range_contains_values:
  "(fst (infer_types lib col) \<in> set checked_integer_types \<longrightarrow>
      (\<exists>lo hi. mysql_int_range (snd (infer_types lib col)) = Some (lo, hi)
         \<and> (\<forall>v \<in> set (observed_values lib col). of_int lo \<le> v \<and> v \<le> of_int hi)))
   \<and> (fst (infer_types lib col) = ''bigint_unsigned'' \<longrightarrow>
        snd (infer_types lib col) = ''BIGINT UNSIGNED''
        \<and> (\<forall>v \<in> set (observed_values lib col). 0 \<le> v))"
proof (rule conjI; rule impI)
  assume a: "fst (infer_types lib col) \<in> set checked_integer_types"
  have e: "infer_types lib col = classify_integer_type (observed_values lib col)"
    using a by (intro infer_integer_is_classify checked_sub)
  show "\<exists>lo hi. mysql_int_range (snd (infer_types lib col)) = Some (lo, hi)
         \<and> (\<forall>v \<in> set (observed_values lib col). of_int lo \<le> v \<and> v \<le> of_int hi)"
    using a unfolding e by (rule classify_integer_checked)
next
  assume a: "fst (infer_types lib col) = ''bigint_unsigned''"
  have e: "infer_types lib col = classify_integer_type (observed_values lib col)"
    using a by (intro infer_integer_is_classify) (simp add: integer_types_def)
  show "snd (infer_types lib col) = ''BIGINT UNSIGNED''
        \<and> (\<forall>v \<in> set (observed_values lib col). 0 \<le> v)"
    using a unfolding e by (rule classify_integer_bigint_unsigned)
qed

theorem integer_range_contains_values_witness:
  "infer_types plain_lib signed_column = (''smallint'', ''SMALLINT'')
   \<and> observed_values plain_lib signed_column = [- 5, 300]
   \<and> fst (infer_types plain_lib signed_column) \<in> set checked_integer_types
   \<and> (\<exists>lo hi. mysql_int_range (snd (infer_types plain_lib signed_column)) = Some (lo, hi)
         \<and> (\<forall>v \<in> set (observed_values plain_lib signed_column).
               of_int lo \<le> v \<and> v \<le> of_int hi))"
proof -
  have i: "infer_types plain_lib signed_column = (''smallint'', ''SMALLINT'')"
    by code_simp
  have ob: "observed_values plain_lib signed_column = [- 5, 300]"
    by code_simp
  have h: "fst (infer_types plain_lib signed_column) \<in> set checked_integer_types"
    by (simp add: i checked_integer_types_def)
  from integer_range_contains_values [of plain_lib signed_column] h
  have "\<exists>lo hi. mysql_int_range (snd (infer_types plain_lib signed_column)) = Some (lo, hi)
         \<and> (\<forall>v \<in> set (observed_values plain_lib signed_column).
               of_int lo \<le> v \<and> v \<le> of_int hi)"
    by blast
  with i ob h show ?thesis
    by blast
qed

section \<open>The quality analyzer\<close>

lemma dropna_nil_filter: "dropna xs = [] \<Longrightarrow> filter (\<lambda>c. c = None) xs = xs"
proof (induction xs)
  case Nil
  show ?case by simp
next
  case (Cons x xs)
  then show ?case by (cases x) simp_all
qed

lemma infer_types_no_values: "dropna series = [] \<Longrightarrow> infer_types lib series = (''unknown'', ''TEXT'')"
  by (simp add: infer_types_def)

lemma recommendations_no_values:
  "dropna series = [] \<Longrightarrow>
   generate_cleaning_recommendations lib series dt np =
     (if np > 50 then
        [''High null rate ('' @ format_1f lib np @ ''%) - evaluate column necessity'']
      else if np > 20 then
        [''Significant null rate ('' @ format_1f lib np
         @ ''%) - implement null handling strategy'']
      else if np > 5 then
        [''Moderate null rate ('' @ format_1f lib np @ ''%) - consider default values'']
      else [])"
  by (simp add: generate_cleaning_recommendations_def Let_def)

lemma analyze_column_fields:
  "data_type (analyze_column lib nm series) = fst (infer_types lib series)"
  "mysql_type (analyze_column lib nm series) = snd (infer_types lib series)"
  "cleaning_recommendations (analyze_column lib nm series) =
     generate_cleaning_recommendations lib series (fst (infer_types lib series))
       (if length series > 0
        then (of_nat (length (filter (\<lambda>c. c = None) series)) / of_nat (length series)) * 100
        else 0)"
  by (simp_all add: analyze_column_def Let_def split: prod.splits)


lemma format_hundred: "format_1f plain_lib 100 = ''100.0''"
  by code_simp

text \<open>
  C2 at the column of three cells \<open>5\<close>: the classifier gives the numeric-family type
  \<open>tinyint_unsigned\<close>, all coerced values are the one number 5, and the analysis of the
  column reports no finding, where the same cells under the type \<open>tinyint\<close> get the
  finding that all numeric values are identical.
\<close>

theorem unsigned_column_not_analyzed:
  "infer_types plain_lib identical_column = (''tinyint_unsigned'', ''TINYINT UNSIGNED'')
   \<and> observed_values plain_lib identical_column = [5, 5, 5]
   \<and> cleaning_recommendations (analyze_column plain_lib ''n'' identical_column) = []
   \<and> generate_cleaning_recommendations plain_lib identical_column ''tinyint'' 0
       = [''All numeric values are identical - consider constant handling'']"
  by code_simp

text \<open>
  C9: for a column with no non-null cell, empty or entirely null, the classifier returns
  \<open>unknown\<close> and \<open>TEXT\<close> whatever the library functions are, and the quality analyzer
  returns the null-rate finding of its tier and nothing else; in the analysis of the
  column that is exactly the high-null-rate finding at 100% when the column has cells,
  and no finding when it has none.
\<close>

theorem no_values_column:
  "dropna series = [] \<Longrightarrow>
     infer_types lib series = (''unknown'', ''TEXT'')
     \<and> data_type (analyze_column lib nm series) = ''unknown''
     \<and> mysql_type (analyze_column lib nm series) = ''TEXT''
     \<and> generate_cleaning_recommendations lib series dt np =
         (if np > 50 then
            [''High null rate ('' @ format_1f lib np @ ''%) - evaluate column necessity'']
          else if np > 20 then
            [''Significant null rate ('' @ format_1f lib np
             @ ''%) - implement null handling strategy'']
          else if np > 5 then
            [''Moderate null rate ('' @ format_1f lib np @ ''%) - consider default values'']
          else [])
     \<and> cleaning_recommendations (analyze_column lib nm series) =
         (if series = [] then []
          else [''High null rate ('' @ format_1f lib 100 @ ''%) - evaluate column necessity''])"
proof (intro conjI)
  assume e: "dropna series = []"
  show "infer_types lib series = (''unknown'', ''TEXT'')"
    using e by (rule infer_types_no_values)
  show "data_type (analyze_column lib nm series) = ''unknown''"
    by (simp add: analyze_column_fields infer_types_no_values [OF e])
  show "mysql_type (analyze_column lib nm series) = ''TEXT''"
    by (simp add: analyze_column_fields infer_types_no_values [OF e])
  show "generate_cleaning_recommendations lib series dt np =
         (if np > 50 then
            [''High null rate ('' @ format_1f lib np @ ''%) - evaluate column necessity'']
          else if np > 20 then
            [''Significant null rate ('' @ format_1f lib np
             @ ''%) - implement null handling strategy'']
          else if np > 5 then
            [''Moderate null rate ('' @ format_1f lib np @ ''%) - consider default values'']
          else [])"
    using e by (rule recommendations_no_values)
  show "cleaning_recommendations (analyze_column lib nm series) =
         (if series = [] then []
          else [''High null rate ('' @ format_1f lib 100 @ ''%) - evaluate column necessity''])"
    by (simp add: analyze_column_fields(3) recommendations_no_values [OF e]
        dropna_nil_filter [OF e])
qed

theorem no_values_column_witness:
  "dropna null_column = []
   \<and> infer_types plain_lib null_column = (''unknown'', ''TEXT'')
   \<and> cleaning_recommendations (analyze_column plain_lib ''notes'' null_column)
       = [''High null rate (100.0%) - evaluate column necessity'']
   \<and> cleaning_recommendations (analyze_column plain_lib ''notes'' []) = []"
proof -
  have e: "dropna null_column = []"
    by (simp add: null_column_def)
  have e': "dropna ([] :: series) = []"
    by simp
  have n: "null_column \<noteq> []"
    by (simp add: null_column_def)
  from no_values_column [OF e, of plain_lib "''notes''"] n
  have a: "infer_types plain_lib null_column = (''unknown'', ''TEXT'')"
    and b: "cleaning_recommendations (analyze_column plain_lib ''notes'' null_column)
       = [''High null rate ('' @ format_1f plain_lib 100 @ ''%) - evaluate column necessity'']"
    by simp_all
  from no_values_column [OF e', of plain_lib "''notes''"]
  have c: "cleaning_recommendations (analyze_column plain_lib ''notes'' []) = []"
    by simp
  show ?thesis
    using e a b c by (simp add: format_hundred)
qed

section \<open>Order independence of the classification\<close>

lemma dropna_eq: "dropna xs = map the (filter (\<lambda>x. x \<noteq> None) xs)"
  by (induction xs rule: dropna.induct) auto

lemma mset_dropna_image:
  "mset (dropna xs) = image_mset the (filter_mset (\<lambda>x. x \<noteq> None) (mset xs))"
  by (simp only: dropna_eq mset_map mset_filter)

lemma mset_dropna: "mset xs = mset ys \<Longrightarrow> mset (dropna xs) = mset (dropna ys)"
  by (simp only: mset_dropna_image)

lemma mset_map_cong: "mset xs = mset ys \<Longrightarrow> mset (map f xs) = mset (map f ys)"
  by simp

lemma mset_nil_iff: "mset xs = mset ys \<Longrightarrow> xs = [] \<longleftrightarrow> ys = []"
  by (metis mset_zero_iff)

lemma series_min_set: "series_min xs = (if xs = [] then None else Some (Min (set xs)))"
  by (cases xs) (simp_all add: series_min_def Min.set_eq_fold [symmetric])

lemma series_max_set: "series_max xs = (if xs = [] then None else Some (Max (set xs)))"
  by (cases xs) (simp_all add: series_max_def Max.set_eq_fold [symmetric])

lemma series_min_mset: "mset xs = mset ys \<Longrightarrow> series_min xs = series_min ys"
  using mset_nil_iff [of xs ys] mset_eq_setD [of xs ys] by (simp add: series_min_set)

lemma series_max_mset: "mset xs = mset ys \<Longrightarrow> series_max xs = series_max ys"
  using mset_nil_iff [of xs ys] mset_eq_setD [of xs ys] by (simp add: series_max_set)

lemma length_filter_mset:
  "mset xs = mset ys \<Longrightarrow> length (filter P xs) = length (filter P ys)"
  by (metis mset_filter size_mset)

lemma list_all_mset: "mset xs = mset ys \<Longrightarrow> list_all P xs = list_all P ys"
  using mset_eq_setD [of xs ys] by (simp add: list_all_iff)

lemma detect_loop_mset:
  "mset a = mset b \<Longrightarrow> detect_patterns_loop lib a ps = detect_patterns_loop lib b ps"
proof (induction ps)
  case Nil
  show ?case by simp
next
  case (Cons p ps)
  obtain nm pat where p: "p = (nm, pat)" by (cases p)
  have l: "length a = length b"
    using Cons.prems by (rule mset_eq_length)
  have f: "length (filter m a) = length (filter m b)" for m
    using Cons.prems by (rule length_filter_mset)
  show ?case
    using Cons.IH [OF Cons.prems] by (simp add: p l f split: option.splits)
qed

lemma classify_integer_mset:
  "mset a = mset b \<Longrightarrow> classify_integer_type a = classify_integer_type b"
  by (simp add: classify_integer_type_def series_min_mset [of a b] series_max_mset [of a b])

lemma classify_decimal_mset:
  assumes "mset a = mset b"
  shows "classify_decimal_type lib a = classify_decimal_type lib b"
proof -
  let ?g = "\<lambda>s. case split_on (CHR ''.'') s of _ # b # _ \<Rightarrow> Some (length b) | _ \<Rightarrow> None"
  have "mset (map ?g (map (float_str lib) a)) = mset (map ?g (map (float_str lib) b))"
    using assms by simp
  then have "series_max (dropna (map ?g (map (float_str lib) a)))
           = series_max (dropna (map ?g (map (float_str lib) b)))"
    by (intro series_max_mset mset_dropna)
  then show ?thesis
    by (simp add: classify_decimal_type_def Let_def)
qed

lemma detect_numeric_mset:
  assumes "mset a = mset b"
  shows "detect_numeric_types lib a = detect_numeric_types lib b"
proof -
  have v: "mset (dropna (map (to_numeric lib) a)) = mset (dropna (map (to_numeric lib) b))"
    using assms by (intro mset_dropna) simp
  have l: "length a = length b"
    using assms by (rule mset_eq_length)
  have lv: "length (dropna (map (to_numeric lib) a)) = length (dropna (map (to_numeric lib) b))"
    using v by (rule mset_eq_length)
  show ?thesis
    unfolding detect_numeric_types_def Let_def l lv
      classify_integer_mset [OF v] classify_decimal_mset [OF v]
      list_all_mset [OF v]
    by (rule refl)
qed

lemma analyze_string_mset:
  assumes "mset a = mset b"
  shows "analyze_string_type a = analyze_string_type b"
proof -
  have "series_max (map length a) = series_max (map length b)"
    using assms by (intro series_max_mset) simp
  then show ?thesis
    by (simp add: analyze_string_type_def)
qed

lemma infer_types_mset:
  assumes "mset (dropna a) = mset (dropna b)"
  shows "infer_types lib a = infer_types lib b"
proof -
  have l: "length (dropna a) = length (dropna b)"
    using assms by (rule mset_eq_length)
  have s: "mset (map str_strip (dropna a)) = mset (map str_strip (dropna b))"
    using assms by simp
  show ?thesis
    unfolding infer_types_def Let_def l
      detect_numeric_mset [OF assms] analyze_string_mset [OF s]
      detect_patterns_def detect_loop_mset [OF s]
    by (rule refl)
qed


text \<open>
  C8: the classification is a function of the column's non-null values alone, whatever
  their order: two columns with the same non-null values, each as often in the one as in
  the other, get the same logical and target type, and so does every permutation of the
  cells of a column. (As a function of the column, the classification yields the same
  pair each time it is applied.)
\<close>

theorem classification_order_independent:
  "(mset (dropna a) = mset (dropna b) \<longrightarrow> infer_types lib a = infer_types lib b)
   \<and> (mset a = mset b \<longrightarrow> infer_types lib a = infer_types lib b)"
  using infer_types_mset mset_dropna by blast

theorem classification_order_independent_witness:
  "mset signed_column = mset permuted_signed_column
   \<and> infer_types plain_lib permuted_signed_column = (''smallint'', ''SMALLINT'')"
proof -
  have m: "mset signed_column = mset permuted_signed_column"
    by (simp add: signed_column_def permuted_signed_column_def)
  have i: "infer_types plain_lib signed_column = (''smallint'', ''SMALLINT'')"
    by code_simp
  from classification_order_independent [of signed_column permuted_signed_column plain_lib] m
  have "infer_types plain_lib signed_column = infer_types plain_lib permuted_signed_column"
    by blast
  with m i show ?thesis
    by simp
qed

end
